theory Spec2Isabelle
  imports Main
begin

section \<open>Tate algebras: parents, coercion and pushout (sage/rings/tate\_algebra.py)\<close>

subsection \<open>Errors and Python values\<close>

text \<open>
  The exceptions the source raises or lets through. \<open>ValueError\<close> and \<open>TypeError\<close> carry
  the message of the \<^verbatim>\<open>raise\<close> statement.
\<close>

datatype py_error =
    TypeError string
  | ValueError string
  | IndexError
  | ZeroDivisionError
  | OverflowError
  | CoercionException

text \<open>
  A radius handed to the factory is any Python object: either a Sage integer already, or
  something else (of type \<open>'v\<close>) that \<^verbatim>\<open>ZZ(...)\<close> has to convert.
\<close>

datatype 'v pyval = PyInteger int | PyObject 'v

text \<open>The \<^verbatim>\<open>log_radii\<close> argument: not a list or tuple, or a list or tuple.\<close>

datatype 'v radii_arg = Single "'v pyval" | Sequence "'v pyval list"

subsection \<open>The parents\<close>

text \<open>
  \<^verbatim>\<open>TateAlgebra_generic\<close>: the attributes \<^verbatim>\<open>_field\<close>, \<^verbatim>\<open>_cap\<close>, \<^verbatim>\<open>_log_radii\<close>,
  \<^verbatim>\<open>_names\<close>, \<^verbatim>\<open>_order\<close> and \<^verbatim>\<open>_integral\<close> that \<^verbatim>\<open>__init__\<close> stores and never changes.
  \<open>'r\<close> is the type of p-adic rings and fields, \<open>'o\<close> the type of term orders. The
  attributes \<^verbatim>\<open>_ngens\<close>, \<^verbatim>\<open>_base\<close>, \<^verbatim>\<open>_gens\<close>, \<^verbatim>\<open>_parent_terms\<close> and \<^verbatim>\<open>_integer_ring\<close>
  are computed from these six by \<^verbatim>\<open>__init__\<close>; they are the functions \<open>ngens\<close>,
  \<open>base_ring\<close>, \<open>gens\<close>, \<open>monoid_of_terms\<close> and \<open>integer_ring\<close> below.
\<close>

record ('r, 'o) TateAlgebra_generic =
  base_field :: 'r
  cap :: int
  log_radii :: "int list"
  variable_names :: "string list"
  term_order :: 'o
  integral :: bool

text \<open>\<^verbatim>\<open>TateTermMonoid\<close>: the attributes set by its \<^verbatim>\<open>__init__\<close>.\<close>

record ('r, 'o) TateTermMonoid =
  monoid_base :: 'r
  monoid_field :: 'r
  monoid_names :: "string list"
  monoid_ngens :: nat
  monoid_log_radii :: "int list"
  monoid_order :: 'o
  parent_algebra :: "('r, 'o) TateAlgebra_generic"

text \<open>
  What the argument \<^verbatim>\<open>R\<close> of a coercion test or of a pushout can be, by the
  \<^verbatim>\<open>isinstance\<close> tests of the source: a p-adic ring or field (\<^verbatim>\<open>pAdicGeneric\<close>), a
  Tate term monoid, a Tate algebra, a Tate algebra element (given by its parent), or any
  other parent such as \<^verbatim>\<open>ZZ\<close> or \<^verbatim>\<open>GF(2)\<close> (given by its name).
\<close>

datatype ('r, 'o) parent =
    PAdic 'r
  | TermMonoid "('r, 'o) TateTermMonoid"
  | Algebra "('r, 'o) TateAlgebra_generic"
  | Element "('r, 'o) TateAlgebra_generic"
  | OtherParent string

subsection \<open>The collaborators\<close>

text \<open>
  The p-adic layer, the pushout of two p-adic rings, the normalisation of names, the
  constructor of term orders and the conversion to \<^verbatim>\<open>ZZ\<close> are imported by the source
  from other modules. They are parameters of the model: every theorem below holds for
  all of them. Those that can raise return a sum.
\<close>

record ('r, 'o, 'v) collaborators =
  padic_fraction_field :: "'r \<Rightarrow> 'r"
  padic_integer_ring :: "'r \<Rightarrow> 'r"
  padic_is_field :: "'r \<Rightarrow> bool"
  padic_absolute_e :: "'r \<Rightarrow> int"
  padic_precision_cap :: "'r \<Rightarrow> int"
  padic_has_coerce_map_from :: "'r \<Rightarrow> ('r, 'o) parent \<Rightarrow> bool"
  pushout :: "'r \<Rightarrow> 'r \<Rightarrow> py_error + 'r"
  normalize_names :: "string list \<Rightarrow> py_error + string list"
  TermOrder :: "'o \<Rightarrow> nat \<Rightarrow> py_error + 'o"
  ZZ_coerce :: "'v \<Rightarrow> py_error + int"

text \<open>\<^verbatim>\<open>ZZ(r)\<close>: a Sage integer is returned as it is.\<close>

definition ZZ :: "('r, 'o, 'v) collaborators \<Rightarrow> 'v pyval \<Rightarrow> py_error + int" where
  "ZZ env x = (case x of PyInteger i \<Rightarrow> Inr i | PyObject v \<Rightarrow> ZZ_coerce env v)"

text \<open>Sequencing of a computation that can raise.\<close>

definition bind_err :: "py_error + 'a \<Rightarrow> ('a \<Rightarrow> py_error + 'b) \<Rightarrow> py_error + 'b" where
  "bind_err m f = (case m of Inl e \<Rightarrow> Inl e | Inr x \<Rightarrow> f x)"

text \<open>\<^verbatim>\<open>[ ZZ(r) for r in log_radii ]\<close>: the first conversion that raises ends the loop.\<close>

fun ZZ_all :: "('r, 'o, 'v) collaborators \<Rightarrow> 'v pyval list \<Rightarrow> py_error + int list" where
  "ZZ_all env [] = Inr []"
| "ZZ_all env (r # rs) =
     bind_err (ZZ env r) (\<lambda>z. bind_err (ZZ_all env rs) (\<lambda>zs. Inr (z # zs)))"

text \<open>\<^verbatim>\<open>a // b\<close> on Sage integers: floor division, \<^verbatim>\<open>ZeroDivisionError\<close> when \<open>b = 0\<close>.\<close>

definition floordiv :: "int \<Rightarrow> int \<Rightarrow> py_error + int" where
  "floordiv a b = (if b = 0 then Inl ZeroDivisionError else Inr (a div b))"

text \<open>
  \<^verbatim>\<open>xs[n]\<close> on a Python list or tuple: an index below zero counts from the end, an index
  out of range raises \<^verbatim>\<open>IndexError\<close>.
\<close>

definition getitem :: "'a list \<Rightarrow> int \<Rightarrow> py_error + 'a" where
  "getitem xs n =
     (if 0 \<le> n \<and> n < int (length xs) then Inr (xs ! nat n)
      else if n < 0 \<and> - int (length xs) \<le> n then Inr (xs ! nat (int (length xs) + n))
      else Inl IndexError)"

subsection \<open>\<^verbatim>\<open>TateAlgebraFactory\<close>\<close>

type_synonym ('r, 'o) key = "'r \<times> int \<times> int list \<times> string list \<times> 'o"

text \<open>
  \<^verbatim>\<open>create_key(base, prec=None, log_radii=ZZ(0), names=None, order='degrevlex')\<close>.
  \<^verbatim>\<open>None\<close> is \<open>None\<close>; the statements are in the order of the source, so the first
  check that fails decides the exception.
\<close>

definition create_key ::
  "('r, 'o, 'v) collaborators \<Rightarrow> ('r, 'o) parent \<Rightarrow> int option \<Rightarrow> 'v radii_arg \<Rightarrow>
   string list option \<Rightarrow> 'o \<Rightarrow> py_error + ('r, 'o) key" where
  "create_key env base prec radii names ord =
     (case base of
        PAdic b \<Rightarrow>
          (let base' = padic_fraction_field env b in
           case names of
             None \<Rightarrow> Inl (ValueError ''You must specify the names of the variables'')
           | Some ns \<Rightarrow>
               bind_err (normalize_names env ns) (\<lambda>names'.
                 let ngens = length names' in
                 bind_err
                   (case radii of
                      Single r \<Rightarrow> bind_err (ZZ env r) (\<lambda>z. Inr (replicate ngens z))
                    | Sequence rs \<Rightarrow>
                        if length rs \<noteq> ngens
                        then Inl (ValueError
                          ''The number of radii does not match the number of variables'')
                        else ZZ_all env rs)
                   (\<lambda>log_radii'.
                      bind_err (TermOrder env ord ngens) (\<lambda>order'.
                        let prec' = (case prec of None \<Rightarrow> padic_precision_cap env base'
                                                | Some p \<Rightarrow> p)
                        in Inr (base', prec', log_radii', names', order')))))
      | _ \<Rightarrow> Inl (TypeError ''The base ring must be a p-adic field''))"

text \<open>
  \<^verbatim>\<open>ETuple(log_radii)\<close> (\<^verbatim>\<open>sage.rings.polynomial.polydict\<close>) stores its entries as C
  integers of 32 bits: an entry outside \<open>- 2\<^sup>3\<^sup>1 \<dots> 2\<^sup>3\<^sup>1 - 1\<close> raises \<^verbatim>\<open>OverflowError\<close>.
\<close>

definition ETuple_entry :: "int \<Rightarrow> bool" where
  "ETuple_entry x = (- 2147483648 \<le> x \<and> x \<le> 2147483647)"

definition ETuple :: "int list \<Rightarrow> py_error + int list" where
  "ETuple xs = (if list_all ETuple_entry xs then Inr xs else Inl OverflowError)"

text \<open>
  \<^verbatim>\<open>TateAlgebra_generic.__init__(field, prec, log_radii, names, order, integral=False)\<close>,
  as far as the stored attributes go. \<^verbatim>\<open>self._log_radii = ETuple(log_radii)\<close> is the one
  statement that can raise; when it does, no structure is built.
\<close>

definition TateAlgebra_generic_init ::
  "'r \<Rightarrow> int \<Rightarrow> int list \<Rightarrow> string list \<Rightarrow> 'o \<Rightarrow> bool \<Rightarrow>
   py_error + ('r, 'o) TateAlgebra_generic" where
  "TateAlgebra_generic_init field prec radii names ord integ =
     bind_err (ETuple radii) (\<lambda>logs.
       Inr \<lparr> base_field = field, cap = prec, log_radii = logs, variable_names = names,
             term_order = ord, integral = integ \<rparr>)"

text \<open>\<^verbatim>\<open>create_object(version, key)\<close>.\<close>

definition create_object :: "('r, 'o) key \<Rightarrow> py_error + ('r, 'o) TateAlgebra_generic" where
  "create_object key =
     (case key of (base, prec, radii, names, ord) \<Rightarrow>
        TateAlgebra_generic_init base prec radii names ord False)"

subsection \<open>\<^verbatim>\<open>TateAlgebra_generic\<close>\<close>

text \<open>\<^verbatim>\<open>self._ngens = len(names)\<close>, returned by \<^verbatim>\<open>ngens()\<close>.\<close>

definition ngens :: "('r, 'o) TateAlgebra_generic \<Rightarrow> nat" where
  "ngens A = length (variable_names A)"

text \<open>
  The base ring that \<^verbatim>\<open>__init__\<close> hands to \<^verbatim>\<open>CommutativeAlgebra.__init__\<close>:
  \<^verbatim>\<open>field.integer_ring()\<close> if \<^verbatim>\<open>integral\<close>, else \<^verbatim>\<open>field\<close>. It is \<^verbatim>\<open>self._base\<close>.
\<close>

definition base_ring :: "('r, 'o, 'v) collaborators \<Rightarrow> ('r, 'o) TateAlgebra_generic \<Rightarrow> 'r" where
  "base_ring env A =
     (if integral A then padic_integer_ring env (base_field A) else base_field A)"

text \<open>
  \<^verbatim>\<open>self._integer_ring\<close>, returned by \<^verbatim>\<open>integer_ring()\<close>: the algebra itself if it is
  integral, else \<^verbatim>\<open>TateAlgebra_generic(field, prec, log_radii, names, order, integral=True)\<close>.
  \<^verbatim>\<open>__init__\<close> builds this twin from its own arguments after \<^verbatim>\<open>ETuple\<close> has taken the
  radii, so the second \<^verbatim>\<open>ETuple(log_radii)\<close> takes them too: the twin of a structure that
  exists has the attributes of the structure, with \<^verbatim>\<open>_integral\<close> set.
\<close>

definition integer_ring :: "('r, 'o) TateAlgebra_generic \<Rightarrow> ('r, 'o) TateAlgebra_generic" where
  "integer_ring A =
     (if integral A then A
      else \<lparr> base_field = base_field A, cap = cap A, log_radii = log_radii A,
             variable_names = variable_names A, term_order = term_order A,
             integral = True \<rparr>)"

text \<open>
  The invariant of every algebra the factory builds: \<^verbatim>\<open>create_key\<close> lets a key through
  only with as many radii as names.
\<close>

definition well_formed :: "('r, 'o) TateAlgebra_generic \<Rightarrow> bool" where
  "well_formed A = (length (log_radii A) = length (variable_names A))"

text \<open>
  A generator, as the element layer (not part of this module) receives it: the
  indeterminate number \<open>gen_var\<close> of the polynomial ring times the unit of the field
  shifted by \<open>gen_shift\<close> (\<^verbatim>\<open>one << log_radii[i].ceil()\<close> in the integral case, \<^verbatim>\<open>one\<close>
  itself otherwise).
\<close>

datatype generator = Generator (gen_shift: int) (gen_var: nat)

text \<open>\<^verbatim>\<open>self._gens\<close>, one generator for each \<^verbatim>\<open>i in range(self._ngens)\<close>.\<close>

definition gens :: "('r, 'o) TateAlgebra_generic \<Rightarrow> generator list" where
  "gens A =
     map (\<lambda>i. Generator (if integral A then log_radii A ! i else 0) i) [0..<ngens A]"

text \<open>
  \<^verbatim>\<open>gen(n=0)\<close>: \<^verbatim>\<open>self._gens[n]\<close>, with the \<^verbatim>\<open>IndexError\<close> of the list turned into
  \<^verbatim>\<open>ValueError("generator not defined")\<close>.
\<close>

definition gen :: "('r, 'o) TateAlgebra_generic \<Rightarrow> int \<Rightarrow> py_error + generator" where
  "gen A n =
     (case getitem (gens A) n of
        Inl IndexError \<Rightarrow> Inl (ValueError ''generator not defined'')
      | Inl e \<Rightarrow> Inl e
      | Inr g \<Rightarrow> Inr g)"

subsection \<open>\<^verbatim>\<open>TateTermMonoid\<close>\<close>

text \<open>
  \<^verbatim>\<open>TateTermMonoid.__init__(A)\<close>: every attribute is read off the algebra \<^verbatim>\<open>A\<close>.
  \<^verbatim>\<open>self._parent_terms = TateTermMonoid(self)\<close> in the algebra's \<^verbatim>\<open>__init__\<close> makes it
  the monoid that \<^verbatim>\<open>monoid_of_terms()\<close> returns. Its \<^verbatim>\<open>ETuple(A.log_radii())\<close> is taken of
  radii that are the entries of an \<^verbatim>\<open>ETuple\<close> already, and returns them.
\<close>

definition monoid_of_terms ::
  "('r, 'o, 'v) collaborators \<Rightarrow> ('r, 'o) TateAlgebra_generic \<Rightarrow> ('r, 'o) TateTermMonoid" where
  "monoid_of_terms env A =
     \<lparr> monoid_base = base_ring env A, monoid_field = base_field A,
       monoid_names = variable_names A, monoid_ngens = length (variable_names A),
       monoid_log_radii = log_radii A, monoid_order = term_order A, parent_algebra = A \<rparr>"

text \<open>\<^verbatim>\<open>algebra_of_series()\<close>.\<close>

definition algebra_of_series :: "('r, 'o) TateTermMonoid \<Rightarrow> ('r, 'o) TateAlgebra_generic" where
  "algebra_of_series T = parent_algebra T"

subsection \<open>Coercion tests\<close>

text \<open>
  The loop \<^verbatim>\<open>for i in range(self._ngens): if logs[i] != ratio * Rlogs[i]: return False\<close>
  followed by \<^verbatim>\<open>return True\<close>, over the indices still to visit. \<^verbatim>\<open>logs\<close> is an
  \<^verbatim>\<open>ETuple\<close> and \<^verbatim>\<open>Rlogs\<close> an \<^verbatim>\<open>ETuple\<close> or a tuple; both reads are modelled as reads
  of a tuple. Between structures of the factory with equal names no read is out of range,
  and no theorem below depends on what a read out of range does.
\<close>

fun radii_loop :: "int list \<Rightarrow> int list \<Rightarrow> int \<Rightarrow> nat list \<Rightarrow> py_error + bool" where
  "radii_loop logs Rlogs ratio [] = Inr True"
| "radii_loop logs Rlogs ratio (i # rest) =
     bind_err (getitem logs (int i)) (\<lambda>a.
       bind_err (getitem Rlogs (int i)) (\<lambda>b.
         if a \<noteq> ratio * b then Inr False else radii_loop logs Rlogs ratio rest))"

text \<open>
  The body of the branch \<^verbatim>\<open>isinstance(R, (TateTermMonoid, TateAlgebra_generic))\<close> of
  \<^verbatim>\<open>TateAlgebra_generic._coerce_map_from_\<close>, given what the accessors \<^verbatim>\<open>base_ring()\<close>,
  \<^verbatim>\<open>log_radii()\<close>, \<^verbatim>\<open>variable_names()\<close> and \<^verbatim>\<open>term_order()\<close> of \<^verbatim>\<open>R\<close> return.
\<close>

definition coerce_structure ::
  "('r, 'o, 'v) collaborators \<Rightarrow> ('r, 'o) TateAlgebra_generic \<Rightarrow>
   'r \<Rightarrow> int list \<Rightarrow> string list \<Rightarrow> 'o \<Rightarrow> py_error + bool" where
  "coerce_structure env A Rbase Rlogs Rnames Rorder =
     (let base = base_ring env A; logs = log_radii A in
      if padic_has_coerce_map_from env base (PAdic Rbase)
         \<and> variable_names A = Rnames \<and> term_order A = Rorder
      then bind_err (floordiv (padic_absolute_e env base) (padic_absolute_e env Rbase))
             (\<lambda>ratio. radii_loop logs Rlogs ratio [0..<ngens A])
      else Inr False)"

text \<open>\<^verbatim>\<open>TateAlgebra_generic._coerce_map_from_(R)\<close>.\<close>

definition TateAlgebra_coerce_map_from ::
  "('r, 'o, 'v) collaborators \<Rightarrow> ('r, 'o) TateAlgebra_generic \<Rightarrow> ('r, 'o) parent \<Rightarrow>
   py_error + bool" where
  "TateAlgebra_coerce_map_from env A R =
     (if padic_has_coerce_map_from env (base_ring env A) R then Inr True
      else case R of
        TermMonoid U \<Rightarrow>
          coerce_structure env A (monoid_base U) (monoid_log_radii U) (monoid_names U)
            (monoid_order U)
      | Algebra B \<Rightarrow>
          coerce_structure env A (base_ring env B) (log_radii B) (variable_names B)
            (term_order B)
      | _ \<Rightarrow> Inr False)"

text \<open>
  Modelled from the spec: \<^verbatim>\<open>has_coerce_map_from\<close> of the coercion framework
  (\<^verbatim>\<open>sage.structure.parent\<close>) is not part of this module. The spec says a term monoid
  "delegates entirely" to "this monoid's owning algebra's own coercion test", so
  \<^verbatim>\<open>A.has_coerce_map_from(R)\<close> is \<^verbatim>\<open>A._coerce_map_from_(R)\<close>.
\<close>

definition has_coerce_map_from ::
  "('r, 'o, 'v) collaborators \<Rightarrow> ('r, 'o) TateAlgebra_generic \<Rightarrow> ('r, 'o) parent \<Rightarrow>
   py_error + bool" where
  "has_coerce_map_from env A R = TateAlgebra_coerce_map_from env A R"

text \<open>
  \<^verbatim>\<open>TateTermMonoid._coerce_map_from_(R)\<close>. The function ends without a \<^verbatim>\<open>return\<close>
  when no test applies: the result is then \<^verbatim>\<open>None\<close>, here \<open>None\<close>.
\<close>

definition TateTermMonoid_coerce_map_from ::
  "('r, 'o, 'v) collaborators \<Rightarrow> ('r, 'o) TateTermMonoid \<Rightarrow> ('r, 'o) parent \<Rightarrow>
   py_error + bool option" where
  "TateTermMonoid_coerce_map_from env T R =
     (if padic_has_coerce_map_from env (monoid_base T) R then Inr (Some True)
      else case R of
        TermMonoid U \<Rightarrow>
          bind_err (has_coerce_map_from env (parent_algebra T) (Algebra (algebra_of_series U)))
            (\<lambda>b. Inr (Some b))
      | Element E \<Rightarrow>
          bind_err (has_coerce_map_from env (parent_algebra T) (Element E))
            (\<lambda>b. Inr (Some b))
      | _ \<Rightarrow> Inr None)"

text \<open>Python's truth value of what a coercion test returns: \<^verbatim>\<open>None\<close> counts as false.\<close>

definition accepts :: "py_error + bool option \<Rightarrow> bool" where
  "accepts r = (r = Inr (Some True))"

subsection \<open>Pushout\<close>

text \<open>
  The structure that the call \<^verbatim>\<open>TateAlgebra(base, prec, log_radii, names, order)\<close> of the
  factory returns: \<^verbatim>\<open>create_object\<close> of the key of \<^verbatim>\<open>create_key\<close>. Which instance it is
  (a new one or the registered one) is the registry's matter, see \<open>TateAlgebra\<close> below.
\<close>

definition TateAlgebra_structure ::
  "('r, 'o, 'v) collaborators \<Rightarrow> ('r, 'o) parent \<Rightarrow> int option \<Rightarrow> 'v radii_arg \<Rightarrow>
   string list option \<Rightarrow> 'o \<Rightarrow> py_error + ('r, 'o) TateAlgebra_generic" where
  "TateAlgebra_structure env base prec radii names ord =
     bind_err (create_key env base prec radii names ord) create_object"

text \<open>
  \<^verbatim>\<open>TateAlgebra_generic._pushout_(R)\<close>. Without a p-adic \<^verbatim>\<open>R\<close> the function ends
  without a \<^verbatim>\<open>return\<close>: the result is \<^verbatim>\<open>None\<close> (no pushout), here \<open>None\<close>.
\<close>

definition TateAlgebra_pushout ::
  "('r, 'o, 'v) collaborators \<Rightarrow> ('r, 'o) TateAlgebra_generic \<Rightarrow> ('r, 'o) parent \<Rightarrow>
   py_error + ('r, 'o) TateAlgebra_generic option" where
  "TateAlgebra_pushout env A R =
     (case R of
        PAdic S \<Rightarrow>
          bind_err (pushout env (base_ring env A) S) (\<lambda>base.
            bind_err (floordiv (padic_absolute_e env base)
                        (padic_absolute_e env (base_ring env A))) (\<lambda>ratio.
              let cap' = ratio * cap A;
                  log_radii' = map (\<lambda>r. ratio * r) (log_radii A)
              in bind_err
                   (TateAlgebra_structure env (PAdic base) (Some cap')
                      (Sequence (map PyInteger log_radii')) (Some (variable_names A))
                      (term_order A))
                   (\<lambda>A'. if padic_is_field env base then Inr (Some A')
                         else Inr (Some (integer_ring A')))))
      | _ \<Rightarrow> Inr None)"

subsection \<open>The registry of the factory\<close>

text \<open>
  Modelled from the spec: \<^verbatim>\<open>UniqueFactory\<close> (\<^verbatim>\<open>sage.structure.factory\<close>), which
  \<^verbatim>\<open>TateAlgebraFactory\<close> extends, is not part of this module. The spec describes "a
  process-wide interning registry keyed by this tuple", which "grows monotonically
  (structures are never evicted)", with construction as "look up key; if absent, build
  and insert". The registry is a map from keys to references; a reference is the
  position of the instance in the list of all instances built so far.
\<close>

record ('r, 'o) registry =
  cache :: "('r, 'o) key \<rightharpoonup> nat"
  instances :: "('r, 'o) TateAlgebra_generic list"

text \<open>Modelled from the spec: the registry at the start of the process, with no key.\<close>

definition empty_registry :: "('r, 'o) registry" where
  "empty_registry = \<lparr> cache = Map.empty, instances = [] \<rparr>"

text \<open>
  Modelled from the spec: "look up key; if absent, build and insert". A key that is
  registered gives its reference and leaves the registry as it is; a new key gets the
  next reference, and the object that \<^verbatim>\<open>create_object\<close> builds from it is stored there.
  When \<^verbatim>\<open>create_object\<close> raises, nothing is inserted.
\<close>

definition get_object ::
  "('r, 'o) registry \<Rightarrow> ('r, 'o) key \<Rightarrow> (py_error + nat) \<times> ('r, 'o) registry" where
  "get_object reg key =
     (case cache reg key of
        Some ref \<Rightarrow> (Inr ref, reg)
      | None \<Rightarrow>
          (case create_object key of
             Inl e \<Rightarrow> (Inl e, reg)
           | Inr obj \<Rightarrow>
               (Inr (length (instances reg)),
                \<lparr> cache = (cache reg)(key \<mapsto> length (instances reg)),
                  instances = instances reg @ [obj] \<rparr>)))"

text \<open>
  Modelled from the spec: \<^verbatim>\<open>UniqueFactory.__call__\<close> is not part of this module. The call
  \<^verbatim>\<open>TateAlgebra(base, prec, log_radii, names, order)\<close> builds the key with \<^verbatim>\<open>create_key\<close>
  and asks the registry for its instance ("key built and deduplicated"). An exception of
  \<^verbatim>\<open>create_key\<close> or of \<^verbatim>\<open>create_object\<close> leaves the registry as it is.
\<close>

definition TateAlgebra ::
  "('r, 'o, 'v) collaborators \<Rightarrow> ('r, 'o) registry \<Rightarrow> ('r, 'o) parent \<Rightarrow> int option \<Rightarrow>
   'v radii_arg \<Rightarrow> string list option \<Rightarrow> 'o \<Rightarrow> (py_error + nat) \<times> ('r, 'o) registry" where
  "TateAlgebra env reg base prec radii names ord =
     (case create_key env base prec radii names ord of
        Inl e \<Rightarrow> (Inl e, reg)
      | Inr key \<Rightarrow> get_object reg key)"

text \<open>
  Modelled from the spec: "equal keys \<open>\<Rightarrow>\<close> identical structure instance". The registry is
  consistent when every registered reference holds the object of its key.
\<close>

definition registry_ok :: "('r, 'o) registry \<Rightarrow> bool" where
  "registry_ok reg =
     (\<forall>key ref. cache reg key = Some ref \<longrightarrow>
        ref < length (instances reg) \<and> create_object key = Inr (instances reg ! ref))"

subsection \<open>What \<^verbatim>\<open>_pushout_\<close> computes on the way\<close>

text \<open>
  \<^verbatim>\<open>ratio = base.absolute_e() // self._base.absolute_e()\<close> of \<^verbatim>\<open>_pushout_\<close>, for a
  divisor that is not zero (see \<open>floordiv\<close>).
\<close>

definition ramification_ratio :: "('r, 'o, 'v) collaborators \<Rightarrow> 'r \<Rightarrow> 'r \<Rightarrow> int" where
  "ramification_ratio env new_base base =
     padic_absolute_e env new_base div padic_absolute_e env base"

text \<open>
  The algebra \<^verbatim>\<open>A = TateAlgebra(base, cap, log_radii, self._names, self._order)\<close> that
  \<^verbatim>\<open>_pushout_\<close> builds over the pushed-out base ring, with \<^verbatim>\<open>cap = ratio * self._cap\<close>
  and \<^verbatim>\<open>log_radii = [ ratio * r for r in self._log_radii ]\<close>.
\<close>

definition fresh_algebra ::
  "('r, 'o, 'v) collaborators \<Rightarrow> ('r, 'o) TateAlgebra_generic \<Rightarrow> 'r \<Rightarrow>
   py_error + ('r, 'o) TateAlgebra_generic" where
  "fresh_algebra env A new_base =
     TateAlgebra_structure env (PAdic new_base)
       (Some (ramification_ratio env new_base (base_ring env A) * cap A))
       (Sequence (map PyInteger
          (map (\<lambda>r. ramification_ratio env new_base (base_ring env A) * r) (log_radii A))))
       (Some (variable_names A)) (term_order A)"

text \<open>
  An algebra as \<^verbatim>\<open>create_key\<close> leaves it: as many radii as names, and names and term
  order that \<^verbatim>\<open>normalize_names\<close> and \<^verbatim>\<open>TermOrder\<close> have already normalised, so that
  normalising them again (as \<^verbatim>\<open>_pushout_\<close> does, by calling the factory on them) returns
  them.
\<close>

definition normalised :: "('r, 'o, 'v) collaborators \<Rightarrow> ('r, 'o) TateAlgebra_generic \<Rightarrow> bool" where
  "normalised env A =
     (well_formed A
      \<and> normalize_names env (variable_names A) = Inr (variable_names A)
      \<and> TermOrder env (term_order A) (length (variable_names A)) = Inr (term_order A))"

subsection \<open>Runs of the factory\<close>

text \<open>
  Modelled from the spec: the registry "lives for the process lifetime". The arguments of
  one call of \<^verbatim>\<open>TateAlgebra\<close>, and the registry after a run of calls made one after the
  other.
\<close>

type_synonym ('r, 'o, 'v) call =
  "('r, 'o) parent \<times> int option \<times> 'v radii_arg \<times> string list option \<times> 'o"

fun TateAlgebra_calls ::
  "('r, 'o, 'v) collaborators \<Rightarrow> ('r, 'o) registry \<Rightarrow> ('r, 'o, 'v) call list \<Rightarrow>
   ('r, 'o) registry" where
  "TateAlgebra_calls env reg [] = reg"
| "TateAlgebra_calls env reg ((base, prec, radii, names, ord) # rest) =
     TateAlgebra_calls env (snd (TateAlgebra env reg base prec radii names ord)) rest"

subsection \<open>Arguments of the tests\<close>

text \<open>\<^verbatim>\<open>isinstance(R, pAdicGeneric)\<close>.\<close>

definition is_pAdicGeneric :: "('r, 'o) parent \<Rightarrow> bool" where
  "is_pAdicGeneric R = (case R of PAdic S \<Rightarrow> True | _ \<Rightarrow> False)"

text \<open>
  An argument as the system can hand it to a coercion test: a Tate algebra or a term
  monoid comes out of the factory, so it has as many radii as names, and its base ring
  is a p-adic ring, whose absolute ramification index is not zero.
\<close>

definition valid_parent :: "('r, 'o, 'v) collaborators \<Rightarrow> ('r, 'o) parent \<Rightarrow> bool" where
  "valid_parent env R =
     (case R of
        Algebra B \<Rightarrow> well_formed B \<and> padic_absolute_e env (base_ring env B) \<noteq> 0
      | TermMonoid U \<Rightarrow>
          length (monoid_log_radii U) = length (monoid_names U)
          \<and> padic_absolute_e env (monoid_base U) \<noteq> 0
          \<and> well_formed (parent_algebra U)
          \<and> padic_absolute_e env (base_ring env (parent_algebra U)) \<noteq> 0
      | _ \<Rightarrow> True)"

subsection \<open>The rings and algebras of the doctests\<close>

text \<open>
  The doctests work over \<^verbatim>\<open>R = Zp(2)\<close>, its unramified extension \<^verbatim>\<open>Zq(4)\<close>, its
  Eisenstein extension \<^verbatim>\<open>R.extension(x^2 - 2)\<close>, and their fraction fields. A ring of
  this family is its extension together with whether it is a field.
\<close>

datatype extension = Trivial | Unramified | Eisenstein

type_synonym padic2 = "extension \<times> bool"

definition extension_le :: "extension \<Rightarrow> extension \<Rightarrow> bool" where
  "extension_le x y = (x = Trivial \<or> x = y)"

definition example_coerce :: "padic2 \<Rightarrow> (padic2, string \<times> nat) parent \<Rightarrow> bool" where
  "example_coerce b R =
     (case R of
        PAdic s \<Rightarrow> extension_le (fst s) (fst b) \<and> (snd s \<longrightarrow> snd b)
      | OtherParent n \<Rightarrow> n = ''ZZ'' \<or> (n = ''QQ'' \<and> snd b)
      | _ \<Rightarrow> False)"

definition example_pushout :: "padic2 \<Rightarrow> padic2 \<Rightarrow> py_error + padic2" where
  "example_pushout a b =
     (if extension_le (fst a) (fst b) then Inr (fst b, snd a \<or> snd b)
      else if extension_le (fst b) (fst a) then Inr (fst a, snd a \<or> snd b)
      else Inl CoercionException)"

text \<open>
  A value that is not a Sage integer is, in the examples, a fraction \<open>(a, b)\<close> of Python;
  \<^verbatim>\<open>ZZ\<close> converts it when \<open>b\<close> divides \<open>a\<close>.
\<close>

definition example_ZZ :: "int \<times> int \<Rightarrow> py_error + int" where
  "example_ZZ q =
     (if snd q \<noteq> 0 \<and> fst q mod snd q = 0 then Inr (fst q div snd q)
      else Inl (TypeError ''no conversion of this rational to integer''))"

definition example_env :: "(padic2, string \<times> nat, int \<times> int) collaborators" where
  "example_env =
     \<lparr> padic_fraction_field = (\<lambda>r. (fst r, True)),
       padic_integer_ring = (\<lambda>r. (fst r, False)),
       padic_is_field = snd,
       padic_absolute_e = (\<lambda>r. if fst r = Eisenstein then 2 else 1),
       padic_precision_cap = (\<lambda>r. if fst r = Eisenstein then 40 else 20),
       padic_has_coerce_map_from = example_coerce,
       pushout = example_pushout,
       normalize_names = Inr,
       TermOrder = (\<lambda>ord n. Inr (fst ord, n)),
       ZZ_coerce = example_ZZ \<rparr>"

text \<open>
  \<^verbatim>\<open>A.<u,v> = TateAlgebra(R, log_radii=[1,2])\<close> with \<^verbatim>\<open>R = Zp(2)\<close>, the algebra of the
  doctest of \<^verbatim>\<open>_pushout_\<close>, and \<^verbatim>\<open>C.<x,y> = TateAlgebra(S, log_radii=[2,-2])\<close> over the
  Eisenstein extension and \<^verbatim>\<open>B.<x,y> = TateAlgebra(R, log_radii=[1,-1])\<close>, the algebras of
  the doctest of \<^verbatim>\<open>_coerce_map_from_\<close>; and \<^verbatim>\<open>B.<x,y> = TateAlgebra(S)\<close> over
  \<^verbatim>\<open>S.<a> = Zq(4)\<close> of the same doctest, here \<open>example_D\<close>.
\<close>

definition example_A :: "(padic2, string \<times> nat) TateAlgebra_generic" where
  "example_A =
     \<lparr> base_field = (Trivial, True), cap = 20, log_radii = [1, 2],
       variable_names = [''u'', ''v''], term_order = (''degrevlex'', 2), integral = False \<rparr>"

definition example_B :: "(padic2, string \<times> nat) TateAlgebra_generic" where
  "example_B =
     \<lparr> base_field = (Trivial, True), cap = 20, log_radii = [1, - 1],
       variable_names = [''x'', ''y''], term_order = (''degrevlex'', 2), integral = False \<rparr>"

definition example_D :: "(padic2, string \<times> nat) TateAlgebra_generic" where
  "example_D =
     \<lparr> base_field = (Unramified, True), cap = 20, log_radii = [0, 0],
       variable_names = [''x'', ''y''], term_order = (''degrevlex'', 2), integral = False \<rparr>"

text \<open>
  \<^verbatim>\<open>TateAlgebra(Zp(2), log_radii=[2^30, 0], names=('x','y'))\<close>: its radii fit an
  \<^verbatim>\<open>ETuple\<close>, twice its radii do not.
\<close>

definition example_E :: "(padic2, string \<times> nat) TateAlgebra_generic" where
  "example_E =
     \<lparr> base_field = (Trivial, True), cap = 20, log_radii = [1073741824, 0],
       variable_names = [''x'', ''y''], term_order = (''degrevlex'', 2), integral = False \<rparr>"

definition example_C :: "(padic2, string \<times> nat) TateAlgebra_generic" where
  "example_C =
     \<lparr> base_field = (Eisenstein, True), cap = 40, log_radii = [2, - 2],
       variable_names = [''x'', ''y''], term_order = (''degrevlex'', 2), integral = False \<rparr>"

section \<open>Generators\<close>

lemma length_gens: "length (gens A) = ngens A"
  by (simp add: gens_def)

lemma nth_gens:
  "i < ngens A \<Longrightarrow> gens A ! i = Generator (if integral A then log_radii A ! i else 0) i"
  by (simp add: gens_def)

lemma gen_cases:
  "gen A n =
     (if 0 \<le> n \<and> n < int (ngens A) then Inr (gens A ! nat n)
      else if - int (ngens A) \<le> n \<and> n < 0 then Inr (gens A ! nat (int (ngens A) + n))
      else Inl (ValueError ''generator not defined''))"
  by (simp add: gen_def getitem_def length_gens)

text \<open>
  Claim C7, as the code has it. For an algebra with \<open>n\<close> generators, \<open>gen\<close> returns the
  generator number \<open>index\<close> when \<open>0 \<le> index < n\<close>; it fails with "generator not defined"
  if and only if \<open>index \<ge> n\<close> or \<open>index < - n\<close> (and not for every index outside
  \<open>[0, n)\<close>: an index in \<open>[- n, 0)\<close> counts from the end); in particular index 2 on an
  algebra with two variables fails.
\<close>

theorem gen_index:
  "(0 \<le> n \<and> n < int (ngens A) \<longrightarrow>
      gen A n = Inr (gens A ! nat n) \<and> gen_var (gens A ! nat n) = nat n)
   \<and> (gen A n = Inl (ValueError ''generator not defined'')
        \<longleftrightarrow> int (ngens A) \<le> n \<or> n < - int (ngens A))
   \<and> (ngens A = 2 \<longrightarrow> gen A 2 = Inl (ValueError ''generator not defined''))"
  by (auto simp add: gen_cases nth_gens)

text \<open>The doctest: \<^verbatim>\<open>A.gen(1)\<close> is the second generator and \<^verbatim>\<open>A.gen(2)\<close> raises.\<close>

theorem gen_index_witness:
  "0 \<le> (1::int) \<and> (1::int) < int (ngens example_A) \<and> ngens example_A = 2
   \<and> gen example_A 1 = Inr (Generator 0 1)
   \<and> gen example_A 2 = Inl (ValueError ''generator not defined'')"
  using gen_index [of 1 example_A] gen_index [of 2 example_A]
  by (simp add: example_A_def ngens_def gens_def)

text \<open>
  Claim C7 as the spec states it fails: index \<open>- 1\<close> is outside \<open>[0, 2)\<close>, and \<open>gen\<close>
  does not fail there.
\<close>

theorem gen_index_counterexample:
  "\<not> (gen example_A (- 1) = Inl (ValueError ''generator not defined'')
       \<longleftrightarrow> \<not> (0 \<le> (- 1 :: int) \<and> (- 1 :: int) < int (ngens example_A)))"
  by (simp add: gen_cases ngens_def example_A_def)

text \<open>
  Claim C10. For an algebra with \<open>n \<ge> 1\<close> generators and an index \<open>i\<close> with
  \<open>- n \<le> i \<le> - 1\<close>, \<open>gen i\<close> raises nothing and returns the generator number \<open>n + i\<close>;
  "generator not defined" is raised at an index \<open>m\<close> only when \<open>m \<ge> n\<close> or \<open>m < - n\<close>.
\<close>

theorem gen_negative_index:
  assumes "1 \<le> ngens A" and "- int (ngens A) \<le> i" and "i \<le> - 1"
  shows "gen A i = Inr (gens A ! nat (int (ngens A) + i))
     \<and> gen_var (gens A ! nat (int (ngens A) + i)) = nat (int (ngens A) + i)
     \<and> (gen A m = Inl (ValueError ''generator not defined'')
          \<longleftrightarrow> int (ngens A) \<le> m \<or> m < - int (ngens A))"
  using assms by (auto simp add: gen_cases nth_gens)

text \<open>On the algebra in \<open>u\<close>, \<open>v\<close> of the doctests, \<open>gen (- 1)\<close> is \<open>v\<close> and \<open>gen (- 3)\<close> fails.\<close>

theorem gen_negative_index_witness:
  "1 \<le> ngens example_A \<and> - int (ngens example_A) \<le> - 1 \<and> (- 1 :: int) \<le> - 1
   \<and> gen example_A (- 1) = Inr (Generator 0 1)
   \<and> gen example_A (- 3) = Inl (ValueError ''generator not defined'')"
  using gen_negative_index [of example_A "- 1" "- 3"]
  by (simp add: example_A_def ngens_def gens_def)

section \<open>Coercion into a Tate algebra\<close>

lemma getitem_in_range: "i < length xs \<Longrightarrow> getitem xs (int i) = Inr (xs ! i)"
  by (simp add: getitem_def)

lemma radii_loop_in_range:
  "\<forall>i \<in> set idx. i < length logs \<and> i < length Rlogs \<Longrightarrow>
   radii_loop logs Rlogs ratio idx = Inr (\<forall>i \<in> set idx. logs ! i = ratio * Rlogs ! i)"
proof (induction idx)
  case Nil
  show ?case by simp
next
  case (Cons i rest)
  then have "i < length logs" and "i < length Rlogs" by simp_all
  then have step: "radii_loop logs Rlogs ratio (i # rest) =
      (if logs ! i \<noteq> ratio * Rlogs ! i then Inr False else radii_loop logs Rlogs ratio rest)"
    by (simp add: getitem_in_range bind_err_def)
  from Cons have "radii_loop logs Rlogs ratio rest = Inr (\<forall>i \<in> set rest. logs ! i = ratio * Rlogs ! i)"
    by simp
  with step show ?case by simp
qed

lemma coerce_structure_well_formed:
  assumes "well_formed A" and "length Rlogs = length Rnames"
    and "padic_absolute_e env Rbase \<noteq> 0"
  shows "coerce_structure env A Rbase Rlogs Rnames Rorder = Inr
     (padic_has_coerce_map_from env (base_ring env A) (PAdic Rbase)
      \<and> variable_names A = Rnames \<and> term_order A = Rorder
      \<and> (\<forall>i < ngens A. log_radii A ! i =
            (padic_absolute_e env (base_ring env A) div padic_absolute_e env Rbase) * Rlogs ! i))"
proof (cases "padic_has_coerce_map_from env (base_ring env A) (PAdic Rbase)
      \<and> variable_names A = Rnames \<and> term_order A = Rorder")
  case False
  then show ?thesis by (auto simp add: coerce_structure_def Let_def)
next
  case True
  with assms have len: "\<forall>i \<in> set [0..<ngens A]. i < length (log_radii A) \<and> i < length Rlogs"
    by (simp add: well_formed_def ngens_def)
  from True assms(3) show ?thesis
    by (auto simp add: coerce_structure_def Let_def floordiv_def bind_err_def
        radii_loop_in_range [OF len])
qed


text \<open>
  Claim C1. Let \<open>A\<close> be a Tate algebra and \<open>R\<close> a Tate algebra \<open>B\<close> or the term monoid of
  \<open>B\<close>, both as the factory builds them, where \<open>R\<close> is not a scalar ring that the base ring
  of \<open>A\<close> accepts directly. Then \<open>A\<close> accepts a coercion from \<open>R\<close> exactly when the base ring
  of \<open>R\<close> coerces into the base ring of \<open>A\<close>, the tuples of names are equal, the term orders
  are equal, and for every index \<open>i\<close> the radius of \<open>A\<close> is \<open>ratio\<close> times the radius of
  \<open>R\<close>, with \<open>ratio\<close> the floor quotient of the absolute ramification indices; otherwise
  the test returns false.
\<close>

theorem coerce_map_from_structure:
  assumes "well_formed A" and "well_formed B"
    and "R = Algebra B \<or> R = TermMonoid (monoid_of_terms env B)"
    and "\<not> padic_has_coerce_map_from env (base_ring env A) R"
    and "padic_absolute_e env (base_ring env B) \<noteq> 0"
  shows "TateAlgebra_coerce_map_from env A R = Inr
     (padic_has_coerce_map_from env (base_ring env A) (PAdic (base_ring env B))
      \<and> variable_names A = variable_names B \<and> term_order A = term_order B
      \<and> (\<forall>i < ngens A. log_radii A ! i =
            (padic_absolute_e env (base_ring env A) div padic_absolute_e env (base_ring env B))
              * log_radii B ! i))"
proof -
  from assms(2) have len: "length (log_radii B) = length (variable_names B)"
    by (simp add: well_formed_def)
  have "TateAlgebra_coerce_map_from env A R =
      coerce_structure env A (base_ring env B) (log_radii B) (variable_names B) (term_order B)"
    using assms(3,4) by (auto simp add: TateAlgebra_coerce_map_from_def monoid_of_terms_def)
  then show ?thesis
    by (simp add: coerce_structure_well_formed [OF assms(1) len assms(5)])
qed

text \<open>
  The doctest: \<^verbatim>\<open>C\<close> over the Eisenstein extension with radii \<open>(2, - 2)\<close> accepts \<^verbatim>\<open>B\<close>
  over \<^verbatim>\<open>R\<close> with radii \<open>(1, - 1)\<close>, the ratio being 2; \<^verbatim>\<open>B\<close> does not accept \<^verbatim>\<open>C\<close>.
\<close>

theorem coerce_map_from_structure_witness:
  "well_formed example_C \<and> well_formed example_B
   \<and> \<not> padic_has_coerce_map_from example_env (base_ring example_env example_C) (Algebra example_B)
   \<and> padic_absolute_e example_env (base_ring example_env example_B) \<noteq> 0
   \<and> TateAlgebra_coerce_map_from example_env example_C (Algebra example_B) = Inr True
   \<and> TateAlgebra_coerce_map_from example_env example_B (Algebra example_C) = Inr False"
proof -
  have wC: "well_formed example_C" and wB: "well_formed example_B"
    by (simp_all add: well_formed_def example_C_def example_B_def)
  have sC: "\<not> padic_has_coerce_map_from example_env (base_ring example_env example_C) (Algebra example_B)"
    and sB: "\<not> padic_has_coerce_map_from example_env (base_ring example_env example_B) (Algebra example_C)"
    by (simp_all add: example_env_def example_coerce_def)
  have eB: "padic_absolute_e example_env (base_ring example_env example_B) \<noteq> 0"
    and eC: "padic_absolute_e example_env (base_ring example_env example_C) \<noteq> 0"
    by (simp_all add: example_env_def)
  have two: "\<And>P. (\<forall>i<Suc (Suc 0). P i) = (P 0 \<and> P (Suc 0))"
    by (auto simp add: less_Suc_eq)
  show ?thesis
    using wC wB sC eB
      coerce_map_from_structure [OF wC wB _ sC eB]
      coerce_map_from_structure [OF wB wC _ sB eC]
    by (simp add: example_env_def example_coerce_def extension_le_def base_ring_def
        example_B_def example_C_def ngens_def two)
qed



section \<open>No exception from a test that fails\<close>

lemma coerce_structure_total:
  assumes "well_formed A" and "length Rlogs = length Rnames"
    and "padic_absolute_e env Rbase \<noteq> 0"
  shows "\<exists>b. coerce_structure env A Rbase Rlogs Rnames Rorder = Inr b"
  by (simp add: coerce_structure_well_formed [OF assms])


lemma coerce_map_from_total:
  assumes "well_formed A" and "valid_parent env R"
  shows "\<exists>b. TateAlgebra_coerce_map_from env A R = Inr b"
proof (cases "padic_has_coerce_map_from env (base_ring env A) R")
  case True
  then show ?thesis by (auto simp add: TateAlgebra_coerce_map_from_def)
next
  case scalar: False
  show ?thesis
  proof (cases R)
    case (Algebra B)
    with assms(2) have "length (log_radii B) = length (variable_names B)"
      and "padic_absolute_e env (base_ring env B) \<noteq> 0"
      by (simp_all add: valid_parent_def well_formed_def)
    from coerce_structure_total [OF assms(1) this] scalar Algebra show ?thesis
      by (simp add: TateAlgebra_coerce_map_from_def)
  next
    case (TermMonoid U)
    with assms(2) have "length (monoid_log_radii U) = length (monoid_names U)"
      and "padic_absolute_e env (monoid_base U) \<noteq> 0"
      by (simp_all add: valid_parent_def)
    from coerce_structure_total [OF assms(1) this] scalar TermMonoid show ?thesis
      by (simp add: TateAlgebra_coerce_map_from_def)
  qed (use scalar in \<open>auto simp add: TateAlgebra_coerce_map_from_def\<close>)
qed

lemma monoid_coerce_map_from_total:
  assumes "well_formed A" and "valid_parent env R"
  shows "\<exists>b. TateTermMonoid_coerce_map_from env (monoid_of_terms env A) R = Inr b"
proof (cases "padic_has_coerce_map_from env (base_ring env A) R")
  case True
  then show ?thesis by (simp add: TateTermMonoid_coerce_map_from_def monoid_of_terms_def)
next
  case scalar: False
  show ?thesis
  proof (cases R)
    case (TermMonoid U)
    with assms(2) have "valid_parent env (Algebra (algebra_of_series U))"
      by (simp add: valid_parent_def algebra_of_series_def)
    from coerce_map_from_total [OF assms(1) this] obtain b where
      "TateAlgebra_coerce_map_from env A (Algebra (algebra_of_series U)) = Inr b" ..
    with scalar TermMonoid show ?thesis
      by (simp add: TateTermMonoid_coerce_map_from_def has_coerce_map_from_def
          monoid_of_terms_def bind_err_def)
  next
    case (Element E)
    with scalar show ?thesis
      by (simp add: TateTermMonoid_coerce_map_from_def has_coerce_map_from_def
          TateAlgebra_coerce_map_from_def monoid_of_terms_def bind_err_def)
  qed (use scalar in \<open>auto simp add: TateTermMonoid_coerce_map_from_def monoid_of_terms_def\<close>)
qed


text \<open>
  Claim C9. For every Tate algebra \<open>A\<close> and every argument \<open>R\<close> that is not a p-adic ring
  or field (another Tate algebra, too), the pushout returns "no pushout" (\<open>None\<close>) and
  raises nothing; and a coercion test of \<open>A\<close> or of its term monoid returns a value,
  true or false or \<open>None\<close>, and raises nothing.
\<close>

theorem no_pushout_no_exception:
  assumes "well_formed A" and "valid_parent env R"
  shows "(\<not> is_pAdicGeneric R \<longrightarrow> TateAlgebra_pushout env A R = Inr None)
     \<and> (\<exists>b. TateAlgebra_coerce_map_from env A R = Inr b)
     \<and> (\<exists>b. TateTermMonoid_coerce_map_from env (monoid_of_terms env A) R = Inr b)"
proof -
  have "\<not> is_pAdicGeneric R \<longrightarrow> TateAlgebra_pushout env A R = Inr None"
    by (cases R) (simp_all add: is_pAdicGeneric_def TateAlgebra_pushout_def)
  with coerce_map_from_total [OF assms] monoid_coerce_map_from_total [OF assms]
  show ?thesis by simp
qed


text \<open>
  The algebra in \<open>u\<close>, \<open>v\<close> against the algebra \<^verbatim>\<open>B\<close> in \<open>x\<close>, \<open>y\<close>: no pushout, no
  coercion, no exception.
\<close>

theorem no_pushout_no_exception_witness:
  "well_formed example_A \<and> valid_parent example_env (Algebra example_B)
   \<and> \<not> is_pAdicGeneric (Algebra example_B :: (padic2, string \<times> nat) parent)
   \<and> TateAlgebra_pushout example_env example_A (Algebra example_B) = Inr None
   \<and> TateAlgebra_coerce_map_from example_env example_A (Algebra example_B) = Inr False
   \<and> TateTermMonoid_coerce_map_from example_env (monoid_of_terms example_env example_A)
       (Algebra example_B) = Inr None"
proof -
  have wA: "well_formed example_A"
    by (simp add: well_formed_def example_A_def)
  have vB: "valid_parent example_env (Algebra example_B)"
    by (simp add: valid_parent_def well_formed_def example_B_def example_env_def)
  have "TateAlgebra_coerce_map_from example_env example_A (Algebra example_B) = Inr False"
    by (simp add: TateAlgebra_coerce_map_from_def coerce_structure_def example_env_def
        example_coerce_def example_A_def example_B_def)
  moreover have "TateTermMonoid_coerce_map_from example_env (monoid_of_terms example_env example_A)
       (Algebra example_B) = Inr None"
    by (simp add: TateTermMonoid_coerce_map_from_def monoid_of_terms_def example_env_def
        example_coerce_def)
  ultimately show ?thesis
    using wA vB no_pushout_no_exception [OF wA vB]
    by (simp add: is_pAdicGeneric_def)
qed

section \<open>Coercion into a term monoid\<close>

lemma element_not_accepted:
  "\<not> padic_has_coerce_map_from env (base_ring env A) (Element E) \<Longrightarrow>
   TateAlgebra_coerce_map_from env A (Element E) = Inr False"
  by (simp add: TateAlgebra_coerce_map_from_def)

lemma term_monoid_coerce_iff:
  "accepts (TateTermMonoid_coerce_map_from env (monoid_of_terms env A) R) \<longleftrightarrow>
     padic_has_coerce_map_from env (base_ring env A) R
     \<or> (\<exists>U. R = TermMonoid U
           \<and> TateAlgebra_coerce_map_from env A (Algebra (algebra_of_series U)) = Inr True)"
proof (cases "padic_has_coerce_map_from env (base_ring env A) R")
  case True
  then show ?thesis
    by (simp add: accepts_def TateTermMonoid_coerce_map_from_def monoid_of_terms_def)
next
  case scalar: False
  show ?thesis
  proof (cases R)
    case (TermMonoid U)
    with scalar show ?thesis
      by (cases "TateAlgebra_coerce_map_from env A (Algebra (algebra_of_series U))")
        (simp_all add: accepts_def TateTermMonoid_coerce_map_from_def monoid_of_terms_def
          has_coerce_map_from_def bind_err_def)
  next
    case (Element E)
    with scalar show ?thesis
      by (simp add: accepts_def TateTermMonoid_coerce_map_from_def monoid_of_terms_def
          has_coerce_map_from_def bind_err_def element_not_accepted)
  qed (use scalar in \<open>simp_all add: accepts_def TateTermMonoid_coerce_map_from_def
        monoid_of_terms_def\<close>)
qed

text \<open>
  Claim C8, as the code has it. The term monoid of an algebra \<open>A\<close> accepts a coercion from
  \<open>R\<close> exactly when its base ring accepts \<open>R\<close> directly, or \<open>R\<close> is another term monoid
  whose owning algebra is accepted by the coercion test of \<open>A\<close>. An algebra element is
  handed to that test as it is, not its owning algebra, and the answer is \<^verbatim>\<open>False\<close>
  unless the base ring accepts the element directly. A full Tate algebra structure that
  the base ring does not accept as a scalar ring is never accepted: the answer is
  \<^verbatim>\<open>None\<close>.
\<close>

theorem term_monoid_coerce:
  "(accepts (TateTermMonoid_coerce_map_from env (monoid_of_terms env A) R) \<longleftrightarrow>
      padic_has_coerce_map_from env (base_ring env A) R
      \<or> (\<exists>U. R = TermMonoid U
            \<and> TateAlgebra_coerce_map_from env A (Algebra (algebra_of_series U)) = Inr True))
   \<and> (\<not> padic_has_coerce_map_from env (base_ring env A) (Element E) \<longrightarrow>
        TateTermMonoid_coerce_map_from env (monoid_of_terms env A) (Element E)
          = Inr (Some False))
   \<and> (\<not> padic_has_coerce_map_from env (base_ring env A) (Algebra B) \<longrightarrow>
        TateTermMonoid_coerce_map_from env (monoid_of_terms env A) (Algebra B) = Inr None)"
proof -
  have "\<not> padic_has_coerce_map_from env (base_ring env A) (Element E) \<longrightarrow>
        TateTermMonoid_coerce_map_from env (monoid_of_terms env A) (Element E)
          = Inr (Some False)"
    by (simp add: TateTermMonoid_coerce_map_from_def monoid_of_terms_def
        has_coerce_map_from_def bind_err_def element_not_accepted)
  moreover have "\<not> padic_has_coerce_map_from env (base_ring env A) (Algebra B) \<longrightarrow>
        TateTermMonoid_coerce_map_from env (monoid_of_terms env A) (Algebra B) = Inr None"
    by (simp add: TateTermMonoid_coerce_map_from_def monoid_of_terms_def)
  ultimately show ?thesis
    using term_monoid_coerce_iff [of env A R] by blast
qed

text \<open>
  The doctests: the monoid of \<^verbatim>\<open>C\<close> accepts the monoid of \<^verbatim>\<open>B\<close>, and it does not
  accept the algebra \<^verbatim>\<open>B\<close>; nor does it accept an element of \<^verbatim>\<open>B\<close>.
\<close>

theorem term_monoid_coerce_witness:
  "\<not> padic_has_coerce_map_from example_env (base_ring example_env example_C)
        (Algebra example_B)
   \<and> \<not> padic_has_coerce_map_from example_env (base_ring example_env example_C)
        (Element example_B)
   \<and> accepts (TateTermMonoid_coerce_map_from example_env (monoid_of_terms example_env example_C)
      (TermMonoid (monoid_of_terms example_env example_B)))
   \<and> TateTermMonoid_coerce_map_from example_env (monoid_of_terms example_env example_C)
      (Element example_B) = Inr (Some False)
   \<and> TateTermMonoid_coerce_map_from example_env (monoid_of_terms example_env example_C)
      (Algebra example_B) = Inr None"
proof -
  have "TateAlgebra_coerce_map_from example_env example_C (Algebra example_B) = Inr True"
    by (simp add: TateAlgebra_coerce_map_from_def coerce_structure_def example_env_def
        example_coerce_def extension_le_def base_ring_def example_B_def example_C_def ngens_def
        floordiv_def bind_err_def getitem_def upt_rec)
  then show ?thesis
    using term_monoid_coerce [of example_env example_C
        "TermMonoid (monoid_of_terms example_env example_B)" example_B example_B]
    by (simp add: algebra_of_series_def monoid_of_terms_def example_env_def example_coerce_def)
qed

text \<open>
  Claim C8 as the spec states it fails at an element of \<^verbatim>\<open>B\<close> handed to the monoid of
  \<^verbatim>\<open>B\<close>: the owning algebra \<^verbatim>\<open>B\<close> is accepted by the test of \<^verbatim>\<open>B\<close>, the element is not.
\<close>

theorem term_monoid_coerce_counterexample:
  "\<not> (accepts (TateTermMonoid_coerce_map_from example_env
          (monoid_of_terms example_env example_B) (Element example_B))
       \<longleftrightarrow> padic_has_coerce_map_from example_env
             (monoid_base (monoid_of_terms example_env example_B)) (Element example_B)
           \<or> has_coerce_map_from example_env
               (algebra_of_series (monoid_of_terms example_env example_B)) (Algebra example_B)
             = Inr True)"
  by (simp add: accepts_def TateTermMonoid_coerce_map_from_def has_coerce_map_from_def
      TateAlgebra_coerce_map_from_def coerce_structure_def monoid_of_terms_def
      algebra_of_series_def example_env_def example_coerce_def extension_le_def base_ring_def
      example_B_def ngens_def floordiv_def bind_err_def getitem_def upt_rec)

section \<open>The ring of integers of a Tate algebra\<close>

text \<open>
  Claim C5. For every Tate algebra \<open>A\<close>, the base ring of \<open>integer_ring A\<close> is the ring of
  integers of the base field of \<open>A\<close>, its names are the names of \<open>A\<close> and its term order
  is the term order of \<open>A\<close>; and the base ring of a full algebra is its base field.
\<close>

theorem integer_ring_twin:
  "base_ring env (integer_ring A) = padic_integer_ring env (base_field A)
   \<and> variable_names (integer_ring A) = variable_names A
   \<and> term_order (integer_ring A) = term_order A
   \<and> (\<not> integral A \<longrightarrow> base_ring env A = base_field A)"
  by (simp add: base_ring_def integer_ring_def)

text \<open>The algebra in \<open>u\<close>, \<open>v\<close> over the field of \<^verbatim>\<open>Zp(2)\<close> and its ring of integers.\<close>

theorem integer_ring_twin_witness:
  "\<not> integral example_A
   \<and> base_ring example_env (integer_ring example_A) = (Trivial, False)
   \<and> variable_names (integer_ring example_A) = [''u'', ''v'']
   \<and> term_order (integer_ring example_A) = (''degrevlex'', 2)
   \<and> base_ring example_env example_A = (Trivial, True)"
  using integer_ring_twin [of example_env example_A]
  by (simp add: example_A_def example_env_def)

section \<open>Pushout with a p-adic ring\<close>

lemma ZZ_all_integers: "ZZ_all env (map PyInteger rs) = Inr rs"
  by (induction rs) (simp_all add: ZZ_def bind_err_def)

lemma create_key_normalised:
  assumes "normalize_names env ns = Inr ns" and "TermOrder env ord (length ns) = Inr ord"
    and "length rs = length ns"
  shows "create_key env (PAdic b) (Some p) (Sequence (map PyInteger rs)) (Some ns) ord
         = Inr (padic_fraction_field env b, p, rs, ns, ord)"
  using assms by (simp add: create_key_def bind_err_def Let_def ZZ_all_integers)

lemma fresh_algebra_value:
  assumes "normalised env A"
    and "list_all ETuple_entry
           (map (\<lambda>r. ramification_ratio env new_base (base_ring env A) * r) (log_radii A))"
  shows "fresh_algebra env A new_base =
     Inr \<lparr> base_field = padic_fraction_field env new_base,
           cap = ramification_ratio env new_base (base_ring env A) * cap A,
           log_radii = map (\<lambda>r. ramification_ratio env new_base (base_ring env A) * r) (log_radii A),
           variable_names = variable_names A, term_order = term_order A, integral = False \<rparr>"
proof -
  let ?e = "ramification_ratio env new_base (base_ring env A)"
  from assms(1) have "create_key env (PAdic new_base) (Some (?e * cap A))
        (Sequence (map PyInteger (map (\<lambda>r. ?e * r) (log_radii A)))) (Some (variable_names A))
        (term_order A)
      = Inr (padic_fraction_field env new_base, ?e * cap A, map (\<lambda>r. ?e * r) (log_radii A),
             variable_names A, term_order A)"
    by (intro create_key_normalised) (simp_all add: normalised_def well_formed_def)
  moreover have "ETuple (map (\<lambda>r. ?e * r) (log_radii A)) = Inr (map (\<lambda>r. ?e * r) (log_radii A))"
    using assms(2) by (simp only: ETuple_def if_True)
  ultimately show ?thesis
    by (simp only: fresh_algebra_def TateAlgebra_structure_def bind_err_def sum.case
        create_object_def prod.case TateAlgebra_generic_init_def)
qed

lemma pushout_overflow:
  assumes "normalised env A" and "pushout env (base_ring env A) S = Inr new_base"
    and "padic_absolute_e env (base_ring env A) \<noteq> 0"
    and "\<not> list_all ETuple_entry
           (map (\<lambda>r. ramification_ratio env new_base (base_ring env A) * r) (log_radii A))"
  shows "TateAlgebra_pushout env A (PAdic S) = Inl OverflowError"
proof -
  let ?e = "ramification_ratio env new_base (base_ring env A)"
  from assms(1) have key: "create_key env (PAdic new_base) (Some (?e * cap A))
        (Sequence (map PyInteger (map (\<lambda>r. ?e * r) (log_radii A)))) (Some (variable_names A))
        (term_order A)
      = Inr (padic_fraction_field env new_base, ?e * cap A, map (\<lambda>r. ?e * r) (log_radii A),
             variable_names A, term_order A)"
    by (intro create_key_normalised) (simp_all add: normalised_def well_formed_def)
  have over: "ETuple (map (\<lambda>r. ?e * r) (log_radii A)) = Inl OverflowError"
    using assms(4) by (simp only: ETuple_def if_False)
  have ratio: "floordiv (padic_absolute_e env new_base) (padic_absolute_e env (base_ring env A))
      = Inr ?e"
    using assms(3) by (simp add: floordiv_def ramification_ratio_def)
  show ?thesis
    by (simp only: TateAlgebra_pushout_def parent.case assms(2) ratio bind_err_def sum.case
        Let_def TateAlgebra_structure_def key create_object_def prod.case
        TateAlgebra_generic_init_def over)
qed

lemma pushout_base_raises:
  "pushout env (base_ring env A) S = Inl e \<Longrightarrow> TateAlgebra_pushout env A (PAdic S) = Inl e"
  by (simp add: TateAlgebra_pushout_def bind_err_def)

lemma pushout_overflow_example:
  "normalised example_env example_E
   \<and> TateAlgebra_pushout example_env example_E (PAdic (Eisenstein, False)) = Inl OverflowError"
proof -
  have n: "normalised example_env example_E"
    by (simp add: normalised_def well_formed_def example_E_def example_env_def)
  have p: "pushout example_env (base_ring example_env example_E) (Eisenstein, False)
      = Inr (Eisenstein, True)"
    by (simp add: example_env_def example_pushout_def extension_le_def base_ring_def example_E_def)
  have e: "padic_absolute_e example_env (base_ring example_env example_E) \<noteq> 0"
    by (simp add: example_env_def)
  have "\<not> list_all ETuple_entry
        (map (\<lambda>r. ramification_ratio example_env (Eisenstein, True)
                    (base_ring example_env example_E) * r) (log_radii example_E))"
    by (simp add: ramification_ratio_def example_env_def base_ring_def example_E_def
        ETuple_entry_def)
  from pushout_overflow [OF n p e this] n show ?thesis by simp
qed

lemma pushout_value:
  assumes "normalised env A" and "pushout env (base_ring env A) S = Inr new_base"
    and "padic_absolute_e env (base_ring env A) \<noteq> 0"
    and "list_all ETuple_entry
           (map (\<lambda>r. ramification_ratio env new_base (base_ring env A) * r) (log_radii A))"
  shows "TateAlgebra_pushout env A (PAdic S) =
     Inr (Some \<lparr> base_field = padic_fraction_field env new_base,
                 cap = ramification_ratio env new_base (base_ring env A) * cap A,
                 log_radii = map (\<lambda>r. ramification_ratio env new_base (base_ring env A) * r) (log_radii A),
                 variable_names = variable_names A, term_order = term_order A,
                 integral = (\<not> padic_is_field env new_base) \<rparr>)"
proof -
  let ?e = "ramification_ratio env new_base (base_ring env A)"
  note struct = fresh_algebra_value [OF assms(1) assms(4), unfolded fresh_algebra_def]
  have ratio: "floordiv (padic_absolute_e env new_base) (padic_absolute_e env (base_ring env A))
      = Inr ?e"
    using assms(3) by (simp add: floordiv_def ramification_ratio_def)
  have "TateAlgebra_pushout env A (PAdic S) =
      (if padic_is_field env new_base
       then Inr (Some \<lparr> base_field = padic_fraction_field env new_base, cap = ?e * cap A,
               log_radii = map (\<lambda>r. ?e * r) (log_radii A),
               variable_names = variable_names A, term_order = term_order A,
               integral = False \<rparr>)
       else Inr (Some (integer_ring \<lparr> base_field = padic_fraction_field env new_base,
               cap = ?e * cap A, log_radii = map (\<lambda>r. ?e * r) (log_radii A),
               variable_names = variable_names A, term_order = term_order A,
               integral = False \<rparr>)))"
    by (simp only: TateAlgebra_pushout_def parent.case assms(2) ratio bind_err_def sum.case
        Let_def struct)
  then show ?thesis
    by (simp add: integer_ring_def)
qed

text \<open>
  Claim C2, as the code has it. Let \<open>A\<close> be a Tate algebra as the factory builds it, with
  cap \<open>p\<close>, radii \<open>r\<^sub>i\<close>, names \<open>N\<close> and order \<open>O\<close>, and \<open>S\<close> a p-adic ring or field. The
  pushout of \<open>A\<close> with \<open>S\<close> is a Tate algebra only when \<open>new_base = pushout(A.base, S)\<close>
  exists (the exception of the pushout of the base rings passes through otherwise) and
  the radii \<open>e * r\<^sub>i\<close> fit the entries of an \<^verbatim>\<open>ETuple\<close> (\<^verbatim>\<open>OverflowError\<close> otherwise), \<open>e\<close>
  being the floor quotient of the absolute ramification index of \<open>new_base\<close> by that of
  the base of \<open>A\<close>. It then has names \<open>N\<close>, order \<open>O\<close>, cap \<open>e * p\<close> and radii \<open>e * r\<^sub>i\<close>,
  and it is built over the fraction field of \<open>new_base\<close>: its base ring is that field when
  \<open>new_base\<close> is a field and the ring of integers of that field when it is not, which is
  \<open>new_base\<close> itself whenever the p-adic layer returns \<open>new_base\<close> for it.
\<close>

theorem pushout_scaling:
  assumes "normalised env A" and "pushout env (base_ring env A) S = Inr new_base"
    and "padic_absolute_e env (base_ring env A) \<noteq> 0"
    and "list_all ETuple_entry
           (map (\<lambda>r. ramification_ratio env new_base (base_ring env A) * r) (log_radii A))"
  shows "\<exists>P. TateAlgebra_pushout env A (PAdic S) = Inr (Some P)
     \<and> variable_names P = variable_names A \<and> term_order P = term_order A
     \<and> base_field P = padic_fraction_field env new_base
     \<and> base_ring env P =
         (if padic_is_field env new_base then padic_fraction_field env new_base
          else padic_integer_ring env (padic_fraction_field env new_base))
     \<and> ((if padic_is_field env new_base then padic_fraction_field env new_base
          else padic_integer_ring env (padic_fraction_field env new_base)) = new_base
        \<longrightarrow> base_ring env P = new_base)
     \<and> cap P = ramification_ratio env new_base (base_ring env A) * cap A
     \<and> log_radii P =
         map (\<lambda>r. ramification_ratio env new_base (base_ring env A) * r) (log_radii A)"
  by (simp add: pushout_value [OF assms] base_ring_def)

text \<open>
  The doctest \<^verbatim>\<open>A2 = pushout(A, R2)\<close>: over the Eisenstein extension the ratio is 2, the
  radii \<open>(1, 2)\<close> become \<open>(2, 4)\<close> and the cap 20 becomes 40.
\<close>

theorem pushout_scaling_witness:
  "normalised example_env example_A
   \<and> pushout example_env (base_ring example_env example_A) (Eisenstein, False) = Inr (Eisenstein, True)
   \<and> padic_absolute_e example_env (base_ring example_env example_A) \<noteq> 0
   \<and> ramification_ratio example_env (Eisenstein, True) (base_ring example_env example_A) = 2
   \<and> list_all ETuple_entry
        (map (\<lambda>r. ramification_ratio example_env (Eisenstein, True)
                    (base_ring example_env example_A) * r) (log_radii example_A))
   \<and> (\<exists>P. TateAlgebra_pushout example_env example_A (PAdic (Eisenstein, False)) = Inr (Some P)
         \<and> variable_names P = [''u'', ''v''] \<and> term_order P = (''degrevlex'', 2)
         \<and> base_ring example_env P = (Eisenstein, True)
         \<and> cap P = 40 \<and> log_radii P = [2, 4])"
proof -
  have n: "normalised example_env example_A"
    by (simp add: normalised_def well_formed_def example_A_def example_env_def)
  have p: "pushout example_env (base_ring example_env example_A) (Eisenstein, False)
      = Inr (Eisenstein, True)"
    by (simp add: example_env_def example_pushout_def extension_le_def base_ring_def example_A_def)
  have e: "padic_absolute_e example_env (base_ring example_env example_A) \<noteq> 0"
    by (simp add: example_env_def)
  have r: "ramification_ratio example_env (Eisenstein, True) (base_ring example_env example_A) = 2"
    by (simp add: ramification_ratio_def example_env_def base_ring_def example_A_def)
  have A: "variable_names example_A = [''u'', ''v'']" "term_order example_A = (''degrevlex'', 2)"
    "cap example_A = 20" "log_radii example_A = [1, 2]"
    by (simp_all add: example_A_def)
  have fits: "list_all ETuple_entry
        (map (\<lambda>r. ramification_ratio example_env (Eisenstein, True)
                    (base_ring example_env example_A) * r) (log_radii example_A))"
    by (simp add: r A ETuple_entry_def)
  have f: "(if padic_is_field example_env (Eisenstein, True)
          then padic_fraction_field example_env (Eisenstein, True)
          else padic_integer_ring example_env (padic_fraction_field example_env (Eisenstein, True)))
        = (Eisenstein, True)"
    by (simp add: example_env_def)
  from pushout_scaling [OF n p e fits]
  have "\<exists>P. TateAlgebra_pushout example_env example_A (PAdic (Eisenstein, False)) = Inr (Some P)
         \<and> variable_names P = [''u'', ''v''] \<and> term_order P = (''degrevlex'', 2)
         \<and> base_ring example_env P = (Eisenstein, True)
         \<and> cap P = 40 \<and> log_radii P = [2, 4]"
    by (auto simp add: A f r)
  with n p e r fits show ?thesis by simp
qed

text \<open>
  Claim C2 as the spec states it fails: \<^verbatim>\<open>Zq(4)\<close> and the Eisenstein extension
  \<^verbatim>\<open>R.extension(x^2 - 2)\<close> have no pushout, so the pushout of the algebra over the
  fraction field of \<^verbatim>\<open>Zq(4)\<close> with the p-adic ring \<^verbatim>\<open>R.extension(x^2 - 2)\<close> is no Tate
  algebra: the exception of the pushout of the base rings passes through.
\<close>

theorem pushout_scaling_counterexample:
  "normalised example_env example_D
   \<and> is_pAdicGeneric (PAdic (Eisenstein, False) :: (padic2, string \<times> nat) parent)
   \<and> TateAlgebra_pushout example_env example_D (PAdic (Eisenstein, False))
       = Inl CoercionException"
  by (simp add: normalised_def well_formed_def example_D_def example_env_def is_pAdicGeneric_def
      TateAlgebra_pushout_def bind_err_def base_ring_def example_pushout_def extension_le_def)

text \<open>
  Claim C3, as the code has it. When the pushout of a Tate algebra structure with a
  p-adic ring or field is defined, the result is the algebra freshly built over the
  pushed-out base ring if that base ring is a field, and the ring of integers of that
  algebra if it is a ring rather than a field; whether the structure pushed out is itself
  an integral view plays no part beyond its base ring.
\<close>

theorem pushout_integrality:
  assumes "normalised env A" and "pushout env (base_ring env A) S = Inr new_base"
    and "padic_absolute_e env (base_ring env A) \<noteq> 0"
    and "list_all ETuple_entry
           (map (\<lambda>r. ramification_ratio env new_base (base_ring env A) * r) (log_radii A))"
  shows "\<exists>A' P. fresh_algebra env A new_base = Inr A' \<and> \<not> integral A'
     \<and> TateAlgebra_pushout env A (PAdic S) = Inr (Some P)
     \<and> P = (if padic_is_field env new_base then A' else integer_ring A')
     \<and> (integral P \<longleftrightarrow> \<not> padic_is_field env new_base)"
  by (simp add: pushout_value [OF assms] fresh_algebra_value [OF assms(1) assms(4)]
      integer_ring_def)

lemma example_integral_pushout:
  "normalised example_env (integer_ring example_A)"
  "pushout example_env (base_ring example_env (integer_ring example_A)) (Eisenstein, True)
       = Inr (Eisenstein, True)"
  "padic_absolute_e example_env (base_ring example_env (integer_ring example_A)) \<noteq> 0"
  "list_all ETuple_entry
     (map (\<lambda>r. ramification_ratio example_env (Eisenstein, True)
                 (base_ring example_env (integer_ring example_A)) * r)
        (log_radii (integer_ring example_A)))"
  by (simp_all add: normalised_def well_formed_def example_A_def example_env_def integer_ring_def
      example_pushout_def extension_le_def base_ring_def ramification_ratio_def
      ETuple_entry_def)

text \<open>
  The doctest \<^verbatim>\<open>pushout(AA, R2.fraction_field())\<close>: the ring of integers \<^verbatim>\<open>AA\<close> pushed
  out with a field gives a full algebra.
\<close>

theorem pushout_integrality_witness:
  "normalised example_env (integer_ring example_A)
   \<and> pushout example_env (base_ring example_env (integer_ring example_A)) (Eisenstein, True)
       = Inr (Eisenstein, True)
   \<and> padic_absolute_e example_env (base_ring example_env (integer_ring example_A)) \<noteq> 0
   \<and> list_all ETuple_entry
       (map (\<lambda>r. ramification_ratio example_env (Eisenstein, True)
                   (base_ring example_env (integer_ring example_A)) * r)
          (log_radii (integer_ring example_A)))
   \<and> (\<exists>P. TateAlgebra_pushout example_env (integer_ring example_A) (PAdic (Eisenstein, True))
            = Inr (Some P) \<and> \<not> integral P)"
proof -
  note h = example_integral_pushout
  from pushout_integrality [OF h]
  have "\<exists>P. TateAlgebra_pushout example_env (integer_ring example_A) (PAdic (Eisenstein, True))
            = Inr (Some P) \<and> \<not> integral P"
    by (auto simp add: example_env_def)
  with h show ?thesis by simp
qed

text \<open>
  Claim C3 as the spec states it fails there: the structure pushed out is an integral
  view, and the result is not the ring of integers of the freshly built algebra.
\<close>

theorem pushout_integrality_counterexample:
  "\<not> (integral (integer_ring example_A) \<longrightarrow>
        TateAlgebra_pushout example_env (integer_ring example_A) (PAdic (Eisenstein, True))
        = Inr (Some (integer_ring
            \<lparr> base_field = (Eisenstein, True), cap = 40, log_radii = [2, 4],
              variable_names = [''u'', ''v''], term_order = (''degrevlex'', 2),
              integral = False \<rparr>)))"
proof -
  have "TateAlgebra_pushout example_env (integer_ring example_A) (PAdic (Eisenstein, True))
      = Inr (Some \<lparr> base_field = (Eisenstein, True), cap = 40, log_radii = [2, 4],
              variable_names = [''u'', ''v''], term_order = (''degrevlex'', 2),
              integral = False \<rparr>)"
    by (simp add: pushout_value [OF example_integral_pushout])
      (simp add: ramification_ratio_def example_env_def base_ring_def integer_ring_def
        example_A_def)
  then show ?thesis
    by (simp add: integer_ring_def example_A_def)
qed

section \<open>The radii of a key\<close>





section \<open>Interning\<close>

lemma get_object_registered:
  "cache reg key = Some ref \<Longrightarrow> get_object reg key = (Inr ref, reg)"
  by (simp add: get_object_def)

lemma get_object_registers:
  assumes "create_object key = Inr obj"
  shows "\<exists>ref. fst (get_object reg key) = Inr ref \<and> cache (snd (get_object reg key)) key = Some ref"
  using assms by (simp add: get_object_def split: option.splits)

lemma get_object_keeps:
  "cache reg k = Some ref \<Longrightarrow> cache (snd (get_object reg key)) k = Some ref"
  by (auto simp add: get_object_def split: option.splits sum.splits)

lemma get_object_others:
  "k \<noteq> key \<Longrightarrow> cache (snd (get_object reg key)) k = cache reg k"
  by (simp add: get_object_def split: option.splits sum.splits)

lemma get_object_instances:
  "take (length (instances reg)) (instances (snd (get_object reg key))) = instances reg"
  by (simp add: get_object_def split: option.splits sum.splits)

lemma get_object_ok:
  assumes "registry_ok reg"
  shows "registry_ok (snd (get_object reg key))"
proof (cases "cache reg key")
  case (Some ref)
  with assms show ?thesis by (simp add: get_object_def)
next
  case None
  show ?thesis
  proof (cases "create_object key")
    case (Inl e)
    with None assms show ?thesis by (simp add: get_object_def)
  next
    case (Inr obj)
    with None have inst: "instances (snd (get_object reg key)) = instances reg @ [obj]"
      by (simp add: get_object_def)
    show ?thesis
      unfolding registry_ok_def
    proof (intro allI impI)
      fix k ref
      assume "cache (snd (get_object reg key)) k = Some ref"
      with None Inr
      have c: "(if k = key then Some (length (instances reg)) else cache reg k) = Some ref"
        by (simp add: get_object_def)
      show "ref < length (instances (snd (get_object reg key)))
          \<and> create_object k = Inr (instances (snd (get_object reg key)) ! ref)"
      proof (cases "k = key")
        case True
        with c have "ref = length (instances reg)" by simp
        with True Inr show ?thesis by (simp add: inst)
      next
        case False
        with c have "cache reg k = Some ref" by simp
        with assms have "ref < length (instances reg)"
          and "create_object k = Inr (instances reg ! ref)"
          unfolding registry_ok_def by blast+
        then show ?thesis by (simp add: inst nth_append)
      qed
    qed
  qed
qed

lemma TateAlgebra_key:
  "create_key env base prec radii names ord = Inr key \<Longrightarrow>
   TateAlgebra env reg base prec radii names ord = get_object reg key"
  by (simp add: TateAlgebra_def)

lemma TateAlgebra_keeps:
  assumes "cache reg k = Some ref"
  shows "cache (snd (TateAlgebra env reg base prec radii names ord)) k = Some ref"
proof (cases "create_key env base prec radii names ord")
  case (Inl e)
  with assms show ?thesis by (simp add: TateAlgebra_def)
next
  case (Inr key)
  with assms show ?thesis by (simp add: TateAlgebra_key get_object_keeps)
qed

lemma TateAlgebra_ok:
  assumes "registry_ok reg"
  shows "registry_ok (snd (TateAlgebra env reg base prec radii names ord))"
proof (cases "create_key env base prec radii names ord")
  case (Inl e)
  with assms show ?thesis by (simp add: TateAlgebra_def)
next
  case (Inr key)
  with assms show ?thesis by (simp add: TateAlgebra_key get_object_ok)
qed

lemma TateAlgebra_calls_keeps:
  "cache reg k = Some ref \<Longrightarrow> cache (TateAlgebra_calls env reg calls) k = Some ref"
  by (induction env reg calls rule: TateAlgebra_calls.induct) (simp_all add: TateAlgebra_keeps)

lemma TateAlgebra_calls_ok:
  "registry_ok reg \<Longrightarrow> registry_ok (TateAlgebra_calls env reg calls)"
  by (induction env reg calls rule: TateAlgebra_calls.induct) (simp_all add: TateAlgebra_ok)

text \<open>
  Claim C4. Take two parameter sets that \<open>create_key\<close> accepts with the same key (equal
  parameters, for one) and from which \<open>create_object\<close> builds a structure, and a
  consistent registry. The first call of the factory returns a reference; after any run
  of further calls, the second call returns the same reference and leaves the registry as
  it is, and the instance behind the reference is the object of the key. The first call
  changes nothing in the registry but the entry of its own key: every other key keeps
  its entry and every instance built before is kept.
\<close>

theorem factory_interning:
  assumes first: "create_key env base1 prec1 radii1 names1 ord1 = Inr key"
    and second: "create_key env base2 prec2 radii2 names2 ord2 = Inr key"
    and built: "create_object key = Inr obj"
    and ok: "registry_ok reg"
    and reg1: "reg1 = snd (TateAlgebra env reg base1 prec1 radii1 names1 ord1)"
    and reg2: "reg2 = TateAlgebra_calls env reg1 calls"
  shows "\<exists>ref. TateAlgebra env reg base1 prec1 radii1 names1 ord1 = (Inr ref, reg1)
     \<and> TateAlgebra env reg2 base2 prec2 radii2 names2 ord2 = (Inr ref, reg2)
     \<and> ref < length (instances reg2) \<and> instances reg2 ! ref = obj
     \<and> (\<forall>k. k \<noteq> key \<longrightarrow> cache reg1 k = cache reg k)
     \<and> take (length (instances reg)) (instances reg1) = instances reg"
proof -
  have r1: "reg1 = snd (get_object reg key)"
    by (simp add: reg1 TateAlgebra_key [OF first])
  from get_object_registers [OF built, of reg] obtain ref where
    ref: "fst (get_object reg key) = Inr ref" and c1: "cache reg1 key = Some ref"
    by (auto simp add: r1)
  have call1: "TateAlgebra env reg base1 prec1 radii1 names1 ord1 = (Inr ref, reg1)"
    using ref by (simp add: TateAlgebra_key [OF first] r1 prod_eq_iff)
  from c1 have held: "cache reg2 key = Some ref"
    by (simp add: reg2 TateAlgebra_calls_keeps)
  then have call2: "TateAlgebra env reg2 base2 prec2 radii2 names2 ord2 = (Inr ref, reg2)"
    by (simp add: TateAlgebra_key [OF second] get_object_registered)
  have "registry_ok reg2"
    by (simp add: reg2 r1 TateAlgebra_calls_ok get_object_ok ok)
  with held have "ref < length (instances reg2)"
    and "create_object key = Inr (instances reg2 ! ref)"
    unfolding registry_ok_def by blast+
  with built have inst: "ref < length (instances reg2) \<and> instances reg2 ! ref = obj"
    by simp
  have "\<forall>k. k \<noteq> key \<longrightarrow> cache reg1 k = cache reg k"
    and "take (length (instances reg)) (instances reg1) = instances reg"
    by (simp_all add: r1 get_object_others get_object_instances)
  with call1 call2 inst show ?thesis by blast
qed

text \<open>
  \<^verbatim>\<open>TateAlgebra(Zp(2), names=('x','y'))\<close>, then an algebra over \<^verbatim>\<open>Zq(4)\<close>, then the
  algebra over the fraction field of \<^verbatim>\<open>Zp(2)\<close> with the cap and the radii written out:
  the first and the last call return the same reference.
\<close>

theorem factory_interning_witness:
  "create_key example_env (PAdic (Trivial, False)) None (Single (PyInteger 0))
        (Some [''x'', ''y'']) (''degrevlex'', 0)
      = Inr ((Trivial, True), 20, [0, 0], [''x'', ''y''], (''degrevlex'', 2))
   \<and> create_key example_env (PAdic (Trivial, True)) (Some 20)
        (Sequence [PyInteger 0, PyObject (0, 1)]) (Some [''x'', ''y'']) (''degrevlex'', 2)
      = Inr ((Trivial, True), 20, [0, 0], [''x'', ''y''], (''degrevlex'', 2))
   \<and> create_object ((Trivial, True), 20, [0, 0], [''x'', ''y''], (''degrevlex'', 2 :: nat))
      = Inr \<lparr> base_field = (Trivial, True), cap = 20, log_radii = [0, 0],
              variable_names = [''x'', ''y''], term_order = (''degrevlex'', 2),
              integral = False \<rparr>
   \<and> registry_ok (empty_registry :: (padic2, string \<times> nat) registry)
   \<and> fst (TateAlgebra example_env empty_registry (PAdic (Trivial, False)) None
          (Single (PyInteger 0)) (Some [''x'', ''y'']) (''degrevlex'', 0)) = Inr 0
   \<and> fst (TateAlgebra example_env
          (TateAlgebra_calls example_env
            (snd (TateAlgebra example_env empty_registry (PAdic (Trivial, False)) None
               (Single (PyInteger 0)) (Some [''x'', ''y'']) (''degrevlex'', 0)))
            [(PAdic (Unramified, False), None, Single (PyInteger 0), Some [''x'', ''y''],
              (''lex'', 0))])
          (PAdic (Trivial, True)) (Some 20) (Sequence [PyInteger 0, PyObject (0, 1)])
          (Some [''x'', ''y'']) (''degrevlex'', 2)) = Inr 0"
proof -
  let ?key = "((Trivial, True), 20 :: int, [0, 0 :: int], [''x'', ''y''], (''degrevlex'', 2 :: nat))"
  have k1: "create_key example_env (PAdic (Trivial, False)) None (Single (PyInteger 0))
        (Some [''x'', ''y'']) (''degrevlex'', 0) = Inr ?key"
    by (simp add: create_key_def bind_err_def ZZ_def example_env_def)
  have k2: "create_key example_env (PAdic (Trivial, True)) (Some 20)
        (Sequence [PyInteger 0, PyObject (0, 1)]) (Some [''x'', ''y'']) (''degrevlex'', 2)
      = Inr ?key"
    by (simp add: create_key_def bind_err_def ZZ_def example_env_def example_ZZ_def)
  have b: "create_object ?key
      = Inr \<lparr> base_field = (Trivial, True), cap = 20, log_radii = [0, 0],
              variable_names = [''x'', ''y''], term_order = (''degrevlex'', 2),
              integral = False \<rparr>"
    by (simp add: create_object_def TateAlgebra_generic_init_def ETuple_def ETuple_entry_def
        bind_err_def)
  have ok: "registry_ok (empty_registry :: (padic2, string \<times> nat) registry)"
    by (simp add: registry_ok_def empty_registry_def)
  have first: "fst (TateAlgebra example_env empty_registry (PAdic (Trivial, False)) None
          (Single (PyInteger 0)) (Some [''x'', ''y'']) (''degrevlex'', 0)) = Inr 0"
    by (simp add: TateAlgebra_def k1 b get_object_def empty_registry_def)
  from factory_interning [OF k1 k2 b ok refl refl] first
  show ?thesis
    using k1 k2 b ok by (metis fst_conv)
qed

end
